theory Spec2Isabelle
  imports Main
begin

section \<open>Values of the Go program\<close>

text \<open>
  The package \<open>telemetry\<close> is a sequence of calls into the OpenTelemetry SDK, the gRPC
  client library and a configuration package. None of these is part of the repository, so
  each fallible call is a field of the record \<open>otel_lib\<close> below, and every call the
  program makes is appended to a log of events: the log is the state that is threaded
  through the program.

  A Go \<open>error\<close> is an interface value: \<open>None\<close> is \<open>nil\<close>. A pointer or a function value
  is an option in the same way.
\<close>

datatype go_context = Context nat

datatype go_error =
    ErrorString string
  | WrapError string go_error
  | JoinError "go_error list"

type_synonym error = "go_error option"

text \<open>A call either returns or panics.\<close>

datatype 'a outcome = Returned 'a | Panicked

text \<open>\<open>configuration.Get\<close> of the external package \<open>config\<close>.\<close>

type_synonym config = "string \<Rightarrow> string"

datatype key_value = attribute_String string string

datatype resource_option = resource_WithAttributes "key_value list"

datatype resource = Resource nat

datatype transport_credentials = insecure_NewCredentials

datatype dial_option = grpc_WithTransportCredentials transport_credentials

datatype client_conn = ClientConn nat

datatype propagator =
    TraceContext
  | Baggage
  | CompositeTextMapPropagator "propagator list"

datatype stdouttrace_option = stdouttrace_WithPrettyPrint

datatype otlptracegrpc_option = otlptracegrpc_WithGRPCConn "client_conn option"

datatype otlpmetricgrpc_option = otlpmetricgrpc_WithGRPCConn "client_conn option"

datatype span_exporter = SpanExporter nat

datatype metric_exporter = MetricExporter nat

datatype sampler = AlwaysSample

text \<open>A \<open>time.Duration\<close> is a signed count of nanoseconds.\<close>

definition time_Second :: int where
  "time_Second = 1000000000"

datatype batch_option = trace_WithBatchTimeout int

datatype span_processor = BatchSpanProcessor "span_exporter option"

datatype tracer_provider_option =
    trace_WithSampler sampler
  | trace_WithResource "resource option"
  | trace_WithSpanProcessor span_processor
  | trace_WithBatcher "span_exporter option" "batch_option list"

datatype tracer_provider = TracerProvider "tracer_provider_option list"

datatype reader_option = metric_WithInterval int

datatype reader = PeriodicReader "metric_exporter option" "reader_option list"

datatype meter_provider_option =
    metric_WithReader reader
  | metric_WithResource "resource option"

datatype meter_provider = MeterProvider "meter_provider_option list"

text \<open>
  The function values of type \<open>func(context.Context) error\<close> that the program builds are
  the method values \<open>tracerProvider.Shutdown\<close> and \<open>meterProvider.Shutdown\<close>.
\<close>

datatype func =
    TracerProvider_Shutdown tracer_provider
  | MeterProvider_Shutdown meter_provider

datatype event =
    Call_grpc_NewClient string "dial_option list"
  | Call_resource_New go_context "resource_option list"
  | Call_otel_SetTextMapPropagator propagator
  | Call_stdouttrace_New "stdouttrace_option list"
  | Call_stdoutmetric_New
  | Call_otlptracegrpc_New go_context "otlptracegrpc_option list"
  | Call_otlpmetricgrpc_New go_context "otlpmetricgrpc_option list"
  | Call_trace_NewTracerProvider "tracer_provider_option list"
  | Call_metric_NewMeterProvider "meter_provider_option list"
  | Call_otel_SetTracerProvider "tracer_provider option"
  | Call_otel_SetMeterProvider "meter_provider option"
  | Call_Shutdown func go_context

type_synonym world = "event list"

text \<open>
  What the external libraries answer. A constructor returns Go's pair of a pointer and an
  error; a provider's \<open>Shutdown\<close> returns an error. The answer of a call may depend on its
  arguments in any way, and every library call is taken to return: the panics of the model
  are those of the package's own code.
\<close>

record otel_lib =
  grpc_NewClient :: "string \<Rightarrow> dial_option list \<Rightarrow> client_conn option \<times> error"
  resource_New :: "go_context \<Rightarrow> resource_option list \<Rightarrow> resource option \<times> error"
  stdouttrace_New :: "stdouttrace_option list \<Rightarrow> span_exporter option \<times> error"
  stdoutmetric_New :: "metric_exporter option \<times> error"
  otlptracegrpc_New :: "go_context \<Rightarrow> otlptracegrpc_option list \<Rightarrow> span_exporter option \<times> error"
  otlpmetricgrpc_New :: "go_context \<Rightarrow> otlpmetricgrpc_option list \<Rightarrow> metric_exporter option \<times> error"
  tracer_Shutdown :: "tracer_provider \<Rightarrow> go_context \<Rightarrow> error"
  meter_Shutdown :: "meter_provider \<Rightarrow> go_context \<Rightarrow> error"

section \<open>Calls into the libraries\<close>

text \<open>
  Every call into a library goes through one of the functions below: it takes the
  library's answer for the arguments of the call and appends the call, with the same
  arguments, to the log. So the log holds the calls that were made, and the answer that
  the program goes on with is the answer to the logged arguments. A provider constructor
  cannot fail and returns the provider built from its options; the setters of the global
  providers and of the propagator return nothing.
\<close>

definition call_grpc_NewClient ::
  "otel_lib \<Rightarrow> string \<Rightarrow> dial_option list \<Rightarrow> world \<Rightarrow> (client_conn option \<times> error) \<times> world" where
  "call_grpc_NewClient L target opts w =
     (grpc_NewClient L target opts, w @ [Call_grpc_NewClient target opts])"

definition call_resource_New ::
  "otel_lib \<Rightarrow> go_context \<Rightarrow> resource_option list \<Rightarrow> world \<Rightarrow> (resource option \<times> error) \<times> world" where
  "call_resource_New L ctx opts w = (resource_New L ctx opts, w @ [Call_resource_New ctx opts])"

definition call_stdouttrace_New ::
  "otel_lib \<Rightarrow> stdouttrace_option list \<Rightarrow> world \<Rightarrow> (span_exporter option \<times> error) \<times> world" where
  "call_stdouttrace_New L opts w = (stdouttrace_New L opts, w @ [Call_stdouttrace_New opts])"

definition call_stdoutmetric_New ::
  "otel_lib \<Rightarrow> world \<Rightarrow> (metric_exporter option \<times> error) \<times> world" where
  "call_stdoutmetric_New L w = (stdoutmetric_New L, w @ [Call_stdoutmetric_New])"

definition call_otlptracegrpc_New ::
  "otel_lib \<Rightarrow> go_context \<Rightarrow> otlptracegrpc_option list \<Rightarrow> world
     \<Rightarrow> (span_exporter option \<times> error) \<times> world" where
  "call_otlptracegrpc_New L ctx opts w =
     (otlptracegrpc_New L ctx opts, w @ [Call_otlptracegrpc_New ctx opts])"

definition call_otlpmetricgrpc_New ::
  "otel_lib \<Rightarrow> go_context \<Rightarrow> otlpmetricgrpc_option list \<Rightarrow> world
     \<Rightarrow> (metric_exporter option \<times> error) \<times> world" where
  "call_otlpmetricgrpc_New L ctx opts w =
     (otlpmetricgrpc_New L ctx opts, w @ [Call_otlpmetricgrpc_New ctx opts])"

definition call_trace_NewTracerProvider ::
  "tracer_provider_option list \<Rightarrow> world \<Rightarrow> tracer_provider \<times> world" where
  "call_trace_NewTracerProvider opts w =
     (TracerProvider opts, w @ [Call_trace_NewTracerProvider opts])"

definition call_metric_NewMeterProvider ::
  "meter_provider_option list \<Rightarrow> world \<Rightarrow> meter_provider \<times> world" where
  "call_metric_NewMeterProvider opts w =
     (MeterProvider opts, w @ [Call_metric_NewMeterProvider opts])"

definition call_otel_SetTextMapPropagator :: "propagator \<Rightarrow> world \<Rightarrow> world" where
  "call_otel_SetTextMapPropagator prop w = w @ [Call_otel_SetTextMapPropagator prop]"

definition call_otel_SetTracerProvider :: "tracer_provider option \<Rightarrow> world \<Rightarrow> world" where
  "call_otel_SetTracerProvider tp w = w @ [Call_otel_SetTracerProvider tp]"

definition call_otel_SetMeterProvider :: "meter_provider option \<Rightarrow> world \<Rightarrow> world" where
  "call_otel_SetMeterProvider mp w = w @ [Call_otel_SetMeterProvider mp]"

section \<open>The standard library\<close>

text \<open>
  \<open>errors.Join\<close> drops the nil errors and returns nil when none is left; \<open>fmt.Errorf\<close>
  with the verb \<open>%w\<close> wraps its argument.
\<close>

definition errors_Join :: "error list \<Rightarrow> error" where
  "errors_Join errs =
     (case List.map_filter id errs of
        [] \<Rightarrow> None
      | e # es \<Rightarrow> Some (JoinError (e # es)))"

definition fmt_Errorf :: "string \<Rightarrow> go_error \<Rightarrow> error" where
  "fmt_Errorf format e = Some (WrapError format e)"

text \<open>
  Calling a function value: a nil function panics, a method value runs the provider's
  \<open>Shutdown\<close>.
\<close>

fun call_func :: "otel_lib \<Rightarrow> func option \<Rightarrow> go_context \<Rightarrow> world \<Rightarrow> error outcome \<times> world" where
  "call_func L None ctx w = (Panicked, w)"
| "call_func L (Some (TracerProvider_Shutdown tp)) ctx w =
     (Returned (tracer_Shutdown L tp ctx), w @ [Call_Shutdown (TracerProvider_Shutdown tp) ctx])"
| "call_func L (Some (MeterProvider_Shutdown mp)) ctx w =
     (Returned (meter_Shutdown L mp ctx), w @ [Call_Shutdown (MeterProvider_Shutdown mp) ctx])"

section \<open>otel\_helper.go, first part: handleErr and shutdown\<close>

text \<open>
  The \<open>for ... range shutdownFuncs\<close> loop of \<open>shutdown\<close>, with \<open>err\<close> as accumulator. The
  helper makes the slice with \<open>make(..., 0)\<close> just before the loop; setting the local slice
  to nil after the loop changes nothing that is returned.
\<close>

fun shutdown_range ::
  "otel_lib \<Rightarrow> go_context \<Rightarrow> func option list \<Rightarrow> error \<Rightarrow> world \<Rightarrow> error outcome \<times> world" where
  "shutdown_range L ctx [] err w = (Returned err, w)"
| "shutdown_range L ctx (fn # fns) err w =
     (case call_func L fn ctx w of
        (Panicked, w1) \<Rightarrow> (Panicked, w1)
      | (Returned r, w1) \<Rightarrow> shutdown_range L ctx fns (errors_Join [err, r]) w1)"

definition shutdown :: "otel_lib \<Rightarrow> go_context \<Rightarrow> world \<Rightarrow> error outcome \<times> world" where
  "shutdown L ctx w =
     (let shutdownFuncs = [] :: func option list;
          err = None
      in shutdown_range L ctx shutdownFuncs err w)"

text \<open>
  \<open>handleErr\<close> has no result. The joined error is assigned to the parameter \<open>err\<close>, which
  is local to the call.
\<close>

definition handleErr :: "otel_lib \<Rightarrow> error \<Rightarrow> go_context \<Rightarrow> world \<Rightarrow> unit outcome \<times> world" where
  "handleErr L err ctx w =
     (if err \<noteq> None then
        (case shutdown L ctx w of
           (Panicked, w1) \<Rightarrow> (Panicked, w1)
         | (Returned r, w1) \<Rightarrow>
             (let err1 = errors_Join [err, r] in (Returned (), w1)))
      else (Returned (), w))"

section \<open>Deferred calls\<close>

text \<open>
  Both setup functions defer closures of one shape,
  \<^verbatim>\<open>func() { if err := f(ctx); err != nil { handleErr(err, ctx) } }\<close>,
  where \<open>f\<close> is a provider's \<open>Shutdown\<close>. The \<open>err\<close> of the closure is its own variable,
  so the closure leaves the named results of the setup function alone.
\<close>

definition deferred_shutdown ::
  "otel_lib \<Rightarrow> func option \<Rightarrow> go_context \<Rightarrow> world \<Rightarrow> unit outcome \<times> world" where
  "deferred_shutdown L f ctx w =
     (case call_func L f ctx w of
        (Panicked, w1) \<Rightarrow> (Panicked, w1)
      | (Returned err, w1) \<Rightarrow>
          (if err \<noteq> None then handleErr L err ctx w1 else (Returned (), w1)))"

text \<open>
  The deferred calls run when the function returns, the last deferred first (the head of
  the list). A deferred call that panics does not stop the ones deferred before it; the
  function then panics instead of returning. The boolean says that a call panicked.
\<close>

fun run_defers :: "otel_lib \<Rightarrow> go_context \<Rightarrow> func option list \<Rightarrow> world \<Rightarrow> bool \<times> world" where
  "run_defers L ctx [] w = (False, w)"
| "run_defers L ctx (f # fs) w =
     (case deferred_shutdown L f ctx w of
        (r, w1) \<Rightarrow>
          (case run_defers L ctx fs w1 of
             (p, w2) \<Rightarrow> (r = Panicked \<or> p, w2)))"

text \<open>The named results \<open>(shutdown, err)\<close> of a setup function.\<close>

type_synonym results = "func option \<times> error"

definition return_from ::
  "otel_lib \<Rightarrow> go_context \<Rightarrow> results outcome \<times> func option list \<times> world \<Rightarrow> results outcome \<times> world" where
  "return_from L ctx body =
     (case body of
        (r, defers, w) \<Rightarrow>
          (case run_defers L ctx defers w of
             (p, w1) \<Rightarrow> (if p then Panicked else r, w1)))"

section \<open>The stdout path\<close>

text \<open>
  \<open>newLoggerProvider\<close> is left out: its only call in \<open>SetupOTelSDKStdout\<close> is commented
  out in the source.
\<close>

definition newPropagator :: propagator where
  "newPropagator = CompositeTextMapPropagator [TraceContext, Baggage]"

definition newTraceProvider ::
  "otel_lib \<Rightarrow> resource option \<Rightarrow> world \<Rightarrow> (tracer_provider option \<times> error) \<times> world" where
  "newTraceProvider L res w =
     (let ((traceExporter, err), w1) = call_stdouttrace_New L [stdouttrace_WithPrettyPrint] w
      in if err \<noteq> None then ((None, err), w1)
         else
           let (traceProvider, w2) =
                 call_trace_NewTracerProvider
                   [trace_WithBatcher traceExporter [trace_WithBatchTimeout time_Second],
                    trace_WithResource res] w1
           in ((Some traceProvider, None), w2))"

definition newMeterProvider ::
  "otel_lib \<Rightarrow> resource option \<Rightarrow> world \<Rightarrow> (meter_provider option \<times> error) \<times> world" where
  "newMeterProvider L res w =
     (let ((metricExporter, err), w1) = call_stdoutmetric_New L w
      in if err \<noteq> None then ((None, err), w1)
         else
           let (meterProvider, w2) =
                 call_metric_NewMeterProvider
                   [metric_WithReader
                      (PeriodicReader metricExporter [metric_WithInterval (3 * time_Second)]),
                    metric_WithResource res] w1
           in ((Some meterProvider, None), w2))"

text \<open>
  The body of \<open>SetupOTelSDKStdout\<close> up to its \<open>return\<close>: the named results, the stack of
  deferred calls and the log. The named result \<open>shutdown\<close> hides the helper of the same
  name and starts as nil; \<open>res, err := ...\<close> assigns the named result \<open>err\<close>.
\<close>

definition SetupOTelSDKStdout_body ::
  "otel_lib \<Rightarrow> go_context \<Rightarrow> config \<Rightarrow> world \<Rightarrow> results outcome \<times> func option list \<times> world" where
  "SetupOTelSDKStdout_body L ctx configuration w =
     (let shutdown = None :: func option;
          ((res, err), w1) =
             call_resource_New L ctx
               [resource_WithAttributes
                  [attribute_String ''SERVICE_NAME'' (configuration ''APP_NAME'')]] w
      in if err \<noteq> None then
           (case handleErr L err ctx w1 of
              (h, w2) \<Rightarrow> (map_outcome (\<lambda>_. (shutdown, err)) h, [], w2))
         else
           let prop = newPropagator;
               w2 = call_otel_SetTextMapPropagator prop w1;
               ((tracerProvider, err), w3) = newTraceProvider L res w2
           in if err \<noteq> None then
                (case handleErr L err ctx w3 of
                   (h, w4) \<Rightarrow> (map_outcome (\<lambda>_. (shutdown, err)) h, [], w4))
              else
                let defers = [map_option TracerProvider_Shutdown tracerProvider];
                    w4 = call_otel_SetTracerProvider tracerProvider w3;
                    ((meterProvider, err), w5) = newMeterProvider L res w4
                in if err \<noteq> None then
                     (case handleErr L err ctx w5 of
                        (h, w6) \<Rightarrow> (map_outcome (\<lambda>_. (shutdown, err)) h, defers, w6))
                   else
                     let defers = map_option MeterProvider_Shutdown meterProvider # defers;
                         w6 = call_otel_SetMeterProvider meterProvider w5
                     in (Returned (shutdown, err), defers, w6))"

definition SetupOTelSDKStdout ::
  "otel_lib \<Rightarrow> go_context \<Rightarrow> config \<Rightarrow> world \<Rightarrow> results outcome \<times> world" where
  "SetupOTelSDKStdout L ctx configuration w =
     return_from L ctx (SetupOTelSDKStdout_body L ctx configuration w)"

section \<open>The gRPC path\<close>

definition initConn :: "otel_lib \<Rightarrow> world \<Rightarrow> (client_conn option \<times> error) \<times> world" where
  "initConn L w =
     (let ((conn, err), w1) =
             call_grpc_NewClient L ''localhost:4317''
               [grpc_WithTransportCredentials insecure_NewCredentials] w
      in case err of
           Some e \<Rightarrow>
             ((None, fmt_Errorf ''failed to create gRPC connection to collector: %w'' e), w1)
         | None \<Rightarrow> ((conn, err), w1))"

definition initTracerProvider ::
  "otel_lib \<Rightarrow> go_context \<Rightarrow> resource option \<Rightarrow> client_conn option \<Rightarrow> world
     \<Rightarrow> (func option \<times> error) \<times> world" where
  "initTracerProvider L ctx res conn w =
     (let ((traceExporter, err), w1) =
             call_otlptracegrpc_New L ctx [otlptracegrpc_WithGRPCConn conn] w
      in case err of
           Some e \<Rightarrow> ((None, fmt_Errorf ''failed to create trace exporter: %w'' e), w1)
         | None \<Rightarrow>
             let bsp = BatchSpanProcessor traceExporter;
                 (tracerProvider, w2) =
                    call_trace_NewTracerProvider
                      [trace_WithSampler AlwaysSample, trace_WithResource res,
                       trace_WithSpanProcessor bsp] w1;
                 w3 = call_otel_SetTracerProvider (Some tracerProvider) w2;
                 w4 = call_otel_SetTextMapPropagator TraceContext w3
             in ((Some (TracerProvider_Shutdown tracerProvider), None), w4))"

definition initMeterProvider ::
  "otel_lib \<Rightarrow> go_context \<Rightarrow> resource option \<Rightarrow> client_conn option \<Rightarrow> world
     \<Rightarrow> (func option \<times> error) \<times> world" where
  "initMeterProvider L ctx res conn w =
     (let ((metricExporter, err), w1) =
             call_otlpmetricgrpc_New L ctx [otlpmetricgrpc_WithGRPCConn conn] w
      in case err of
           Some e \<Rightarrow> ((None, fmt_Errorf ''failed to create metrics exporter: %w'' e), w1)
         | None \<Rightarrow>
             let (meterProvider, w2) =
                    call_metric_NewMeterProvider
                      [metric_WithReader (PeriodicReader metricExporter []),
                       metric_WithResource res] w1;
                 w3 = call_otel_SetMeterProvider (Some meterProvider) w2
             in ((Some (MeterProvider_Shutdown meterProvider), None), w3))"

text \<open>
  The body of \<open>SetupOTelSDKGrpc\<close>. Only the check after \<open>resource.New\<close> has a \<open>return\<close>;
  after the three other checks the function goes on. Every \<open>:=\<close> of the body assigns the
  named result \<open>err\<close>, so the final \<open>return\<close> gives the error of \<open>initMeterProvider\<close>.
\<close>

definition SetupOTelSDKGrpc_body ::
  "otel_lib \<Rightarrow> go_context \<Rightarrow> config \<Rightarrow> world \<Rightarrow> results outcome \<times> func option list \<times> world" where
  "SetupOTelSDKGrpc_body L ctx configuration w =
     (let shutdown = None :: func option;
          ((conn, err), w1) = initConn L w;
          (h1, w2) = (if err \<noteq> None then handleErr L err ctx w1 else (Returned (), w1))
      in case h1 of
           Panicked \<Rightarrow> (Panicked, [], w2)
         | Returned _ \<Rightarrow>
             let ((res, err), w3) =
                    call_resource_New L ctx
                      [resource_WithAttributes
                         [attribute_String ''SERVICE_NAME'' (configuration ''APP_NAME'')]] w2
             in if err \<noteq> None then
                  (case handleErr L err ctx w3 of
                     (h, w4) \<Rightarrow> (map_outcome (\<lambda>_. (shutdown, err)) h, [], w4))
                else
                  let prop = newPropagator;
                      w4 = call_otel_SetTextMapPropagator prop w3;
                      ((shutdownTracerProvider, err), w5) = initTracerProvider L ctx res conn w4;
                      (h2, w6) = (if err \<noteq> None then handleErr L err ctx w5
                                  else (Returned (), w5))
                  in case h2 of
                       Panicked \<Rightarrow> (Panicked, [], w6)
                     | Returned _ \<Rightarrow>
                         let defers = [shutdownTracerProvider];
                             ((shutdownMeterProvider, err), w7) =
                                initMeterProvider L ctx res conn w6;
                             (h3, w8) = (if err \<noteq> None then handleErr L err ctx w7
                                         else (Returned (), w7))
                         in case h3 of
                              Panicked \<Rightarrow> (Panicked, defers, w8)
                            | Returned _ \<Rightarrow>
                                let defers = shutdownMeterProvider # defers
                                in (Returned (shutdown, err), defers, w8))"

definition SetupOTelSDKGrpc ::
  "otel_lib \<Rightarrow> go_context \<Rightarrow> config \<Rightarrow> world \<Rightarrow> results outcome \<times> world" where
  "SetupOTelSDKGrpc L ctx configuration w =
     return_from L ctx (SetupOTelSDKGrpc_body L ctx configuration w)"

section \<open>Reading the log\<close>

text \<open>The events that a run appended to the log it started from.\<close>

definition emitted :: "world \<Rightarrow> 'a \<times> world \<Rightarrow> event list" where
  "emitted w r = drop (length w) (snd r)"

fun is_grpc_NewClient :: "event \<Rightarrow> bool" where
  "is_grpc_NewClient (Call_grpc_NewClient target opts) = True"
| "is_grpc_NewClient _ = False"

fun is_resource_New :: "event \<Rightarrow> bool" where
  "is_resource_New (Call_resource_New ctx opts) = True"
| "is_resource_New _ = False"

fun is_Shutdown :: "event \<Rightarrow> bool" where
  "is_Shutdown (Call_Shutdown f ctx) = True"
| "is_Shutdown _ = False"

text \<open>The construction of an exporter of the gRPC path, and of a provider.\<close>

fun is_exporter_New :: "event \<Rightarrow> bool" where
  "is_exporter_New (Call_otlptracegrpc_New ctx opts) = True"
| "is_exporter_New (Call_otlpmetricgrpc_New ctx opts) = True"
| "is_exporter_New _ = False"

fun is_provider_New :: "event \<Rightarrow> bool" where
  "is_provider_New (Call_trace_NewTracerProvider opts) = True"
| "is_provider_New (Call_metric_NewMeterProvider opts) = True"
| "is_provider_New _ = False"

text \<open>The resources that a provider constructor is given through \<open>WithResource\<close>.\<close>

fun tracer_option_resources :: "tracer_provider_option \<Rightarrow> resource option list" where
  "tracer_option_resources (trace_WithResource res) = [res]"
| "tracer_option_resources _ = []"

fun meter_option_resources :: "meter_provider_option \<Rightarrow> resource option list" where
  "meter_option_resources (metric_WithResource res) = [res]"
| "meter_option_resources _ = []"

fun provider_resources :: "event \<Rightarrow> resource option list" where
  "provider_resources (Call_trace_NewTracerProvider opts) =
     concat (map tracer_option_resources opts)"
| "provider_resources (Call_metric_NewMeterProvider opts) =
     concat (map meter_option_resources opts)"
| "provider_resources _ = []"


section \<open>Argument lists of the library calls\<close>

text \<open>Shorthand for the argument lists that the setup functions build, to state what a run logs.\<close>

abbreviation service_name_opts :: "config \<Rightarrow> resource_option list" where
  "service_name_opts configuration \<equiv>
     [resource_WithAttributes [attribute_String ''SERVICE_NAME'' (configuration ''APP_NAME'')]]"

abbreviation insecure_opts :: "dial_option list" where
  "insecure_opts \<equiv> [grpc_WithTransportCredentials insecure_NewCredentials]"

abbreviation stdout_tracer_provider :: "span_exporter option \<Rightarrow> resource option \<Rightarrow> tracer_provider" where
  "stdout_tracer_provider x res \<equiv>
     TracerProvider [trace_WithBatcher x [trace_WithBatchTimeout time_Second], trace_WithResource res]"

abbreviation stdout_meter_provider :: "metric_exporter option \<Rightarrow> resource option \<Rightarrow> meter_provider" where
  "stdout_meter_provider y res \<equiv>
     MeterProvider [metric_WithReader (PeriodicReader y [metric_WithInterval (3 * time_Second)]),
                    metric_WithResource res]"

abbreviation grpc_tracer_provider :: "span_exporter option \<Rightarrow> resource option \<Rightarrow> tracer_provider" where
  "grpc_tracer_provider x res \<equiv>
     TracerProvider [trace_WithSampler AlwaysSample, trace_WithResource res,
                     trace_WithSpanProcessor (BatchSpanProcessor x)]"

abbreviation grpc_meter_provider :: "metric_exporter option \<Rightarrow> resource option \<Rightarrow> meter_provider" where
  "grpc_meter_provider y res \<equiv>
     MeterProvider [metric_WithReader (PeriodicReader y []), metric_WithResource res]"

section \<open>Libraries for concrete runs\<close>

text \<open>A library in which every call succeeds, and a configuration.\<close>

definition all_succeed :: otel_lib where
  "all_succeed =
     \<lparr> grpc_NewClient = (\<lambda>target opts. (Some (ClientConn 1), None)),
       resource_New = (\<lambda>ctx opts. (Some (Resource 1), None)),
       stdouttrace_New = (\<lambda>opts. (Some (SpanExporter 1), None)),
       stdoutmetric_New = (Some (MetricExporter 1), None),
       otlptracegrpc_New = (\<lambda>ctx opts. (Some (SpanExporter 2), None)),
       otlpmetricgrpc_New = (\<lambda>ctx opts. (Some (MetricExporter 2), None)),
       tracer_Shutdown = (\<lambda>tp ctx. None),
       meter_Shutdown = (\<lambda>mp ctx. None) \<rparr>"

definition demo_config :: config where
  "demo_config key = (if key = ''APP_NAME'' then ''checkout'' else [])"

text \<open>The same library, except that \<open>otlptracegrpc.New\<close> fails.\<close>

definition trace_exporter_fails :: otel_lib where
  "trace_exporter_fails =
     all_succeed \<lparr> otlptracegrpc_New :=
       (\<lambda>ctx opts. (None, Some (ErrorString ''context deadline exceeded''))) \<rparr>"

text \<open>The same library, except that \<open>otlpmetricgrpc.New\<close> fails.\<close>

definition metric_exporter_fails :: otel_lib where
  "metric_exporter_fails =
     all_succeed \<lparr> otlpmetricgrpc_New :=
       (\<lambda>ctx opts. (None, Some (ErrorString ''context deadline exceeded''))) \<rparr>"

text \<open>The same library, except that both providers fail to shut down.\<close>

definition shutdowns_fail :: otel_lib where
  "shutdowns_fail =
     all_succeed \<lparr> tracer_Shutdown := (\<lambda>tp ctx. Some (ErrorString ''tracer: context canceled'')),
                   meter_Shutdown := (\<lambda>mp ctx. Some (ErrorString ''meter: context canceled'')) \<rparr>"

section \<open>Runs of the setup functions\<close>

text \<open>
  A deferred closure around a provider's \<open>Shutdown\<close> logs the call and returns, whatever
  the error; around a nil function it panics.
\<close>

lemmas call_defs = call_grpc_NewClient_def call_resource_New_def call_stdouttrace_New_def
  call_stdoutmetric_New_def call_otlptracegrpc_New_def call_otlpmetricgrpc_New_def
  call_trace_NewTracerProvider_def call_metric_NewMeterProvider_def
  call_otel_SetTextMapPropagator_def call_otel_SetTracerProvider_def
  call_otel_SetMeterProvider_def

lemma deferred_shutdown_Some:
  "deferred_shutdown L (Some f) ctx w = (Returned (), w @ [Call_Shutdown f ctx])"
  by (cases f) (simp_all add: deferred_shutdown_def handleErr_def shutdown_def)

lemma deferred_shutdown_None: "deferred_shutdown L None ctx w = (Panicked, w)"
  by (simp add: deferred_shutdown_def)

text \<open>The two outcomes of each constructor of the stdout path.\<close>

lemma newTraceProvider_fails:
  assumes "stdouttrace_New L [stdouttrace_WithPrettyPrint] = (x, Some e)"
  shows "newTraceProvider L res w =
           ((None, Some e), w @ [Call_stdouttrace_New [stdouttrace_WithPrettyPrint]])"
  by (simp add: newTraceProvider_def call_defs assms)

lemma newTraceProvider_succeeds:
  assumes "stdouttrace_New L [stdouttrace_WithPrettyPrint] = (x, None)"
  shows "newTraceProvider L res w =
           ((Some (stdout_tracer_provider x res), None),
            w @ [Call_stdouttrace_New [stdouttrace_WithPrettyPrint],
                 Call_trace_NewTracerProvider
                   [trace_WithBatcher x [trace_WithBatchTimeout time_Second],
                    trace_WithResource res]])"
  by (simp add: newTraceProvider_def call_defs Let_def assms)

lemma newMeterProvider_fails:
  assumes "stdoutmetric_New L = (y, Some e)"
  shows "newMeterProvider L res w = ((None, Some e), w @ [Call_stdoutmetric_New])"
  by (simp add: newMeterProvider_def call_defs assms)

lemma newMeterProvider_succeeds:
  assumes "stdoutmetric_New L = (y, None)"
  shows "newMeterProvider L res w =
           ((Some (stdout_meter_provider y res), None),
            w @ [Call_stdoutmetric_New,
                 Call_metric_NewMeterProvider
                   [metric_WithReader (PeriodicReader y [metric_WithInterval (3 * time_Second)]),
                    metric_WithResource res]])"
  by (simp add: newMeterProvider_def call_defs Let_def assms)

text \<open>
  The four runs of \<open>SetupOTelSDKStdout\<close>: the result and the calls appended to the log,
  by the first constructor that fails.
\<close>

lemma stdout_resource_fails:
  assumes "resource_New L ctx (service_name_opts cfg) = (res, Some e)"
  shows "SetupOTelSDKStdout L ctx cfg w =
           (Returned (None, Some e), w @ [Call_resource_New ctx (service_name_opts cfg)])"
  by (simp add: SetupOTelSDKStdout_def SetupOTelSDKStdout_body_def return_from_def call_defs
      handleErr_def shutdown_def assms)

lemma stdout_trace_exporter_fails:
  assumes "resource_New L ctx (service_name_opts cfg) = (res, None)"
    and "stdouttrace_New L [stdouttrace_WithPrettyPrint] = (x, Some e)"
  shows "SetupOTelSDKStdout L ctx cfg w =
           (Returned (None, Some e),
            w @ [Call_resource_New ctx (service_name_opts cfg),
                 Call_otel_SetTextMapPropagator newPropagator,
                 Call_stdouttrace_New [stdouttrace_WithPrettyPrint]])"
  by (simp add: SetupOTelSDKStdout_def SetupOTelSDKStdout_body_def return_from_def call_defs
      handleErr_def shutdown_def assms(1) newTraceProvider_fails [OF assms(2)])

lemma stdout_metric_exporter_fails:
  assumes "resource_New L ctx (service_name_opts cfg) = (res, None)"
    and "stdouttrace_New L [stdouttrace_WithPrettyPrint] = (x, None)"
    and "stdoutmetric_New L = (y, Some e)"
  shows "SetupOTelSDKStdout L ctx cfg w =
           (Returned (None, Some e),
            w @ [Call_resource_New ctx (service_name_opts cfg),
                 Call_otel_SetTextMapPropagator newPropagator,
                 Call_stdouttrace_New [stdouttrace_WithPrettyPrint],
                 Call_trace_NewTracerProvider
                   [trace_WithBatcher x [trace_WithBatchTimeout time_Second],
                    trace_WithResource res],
                 Call_otel_SetTracerProvider (Some (stdout_tracer_provider x res)),
                 Call_stdoutmetric_New,
                 Call_Shutdown (TracerProvider_Shutdown (stdout_tracer_provider x res)) ctx])"
  by (simp add: SetupOTelSDKStdout_def SetupOTelSDKStdout_body_def return_from_def call_defs
      handleErr_def shutdown_def assms(1) newTraceProvider_succeeds [OF assms(2)]
      newMeterProvider_fails [OF assms(3)] deferred_shutdown_Some)

lemma stdout_succeeds:
  assumes "resource_New L ctx (service_name_opts cfg) = (res, None)"
    and "stdouttrace_New L [stdouttrace_WithPrettyPrint] = (x, None)"
    and "stdoutmetric_New L = (y, None)"
  shows "SetupOTelSDKStdout L ctx cfg w =
           (Returned (None, None),
            w @ [Call_resource_New ctx (service_name_opts cfg),
                 Call_otel_SetTextMapPropagator newPropagator,
                 Call_stdouttrace_New [stdouttrace_WithPrettyPrint],
                 Call_trace_NewTracerProvider
                   [trace_WithBatcher x [trace_WithBatchTimeout time_Second],
                    trace_WithResource res],
                 Call_otel_SetTracerProvider (Some (stdout_tracer_provider x res)),
                 Call_stdoutmetric_New,
                 Call_metric_NewMeterProvider
                   [metric_WithReader (PeriodicReader y [metric_WithInterval (3 * time_Second)]),
                    metric_WithResource res],
                 Call_otel_SetMeterProvider (Some (stdout_meter_provider y res)),
                 Call_Shutdown (MeterProvider_Shutdown (stdout_meter_provider y res)) ctx,
                 Call_Shutdown (TracerProvider_Shutdown (stdout_tracer_provider x res)) ctx])"
  by (simp add: SetupOTelSDKStdout_def SetupOTelSDKStdout_body_def return_from_def call_defs
      handleErr_def shutdown_def assms(1) newTraceProvider_succeeds [OF assms(2)]
      newMeterProvider_succeeds [OF assms(3)] deferred_shutdown_Some)

text \<open>Every run of \<open>SetupOTelSDKStdout\<close> is one of the four.\<close>

lemma SetupOTelSDKStdout_cases:
  obtains
    (resource_fails) res e where
      "resource_New L ctx (service_name_opts cfg) = (res, Some e)"
      "SetupOTelSDKStdout L ctx cfg w =
           (Returned (None, Some e), w @ [Call_resource_New ctx (service_name_opts cfg)])"
  | (trace_exporter_fails) res x e where
      "resource_New L ctx (service_name_opts cfg) = (res, None)"
      "stdouttrace_New L [stdouttrace_WithPrettyPrint] = (x, Some e)"
      "SetupOTelSDKStdout L ctx cfg w =
           (Returned (None, Some e),
            w @ [Call_resource_New ctx (service_name_opts cfg),
                 Call_otel_SetTextMapPropagator newPropagator,
                 Call_stdouttrace_New [stdouttrace_WithPrettyPrint]])"
  | (metric_exporter_fails) res x y e where
      "resource_New L ctx (service_name_opts cfg) = (res, None)"
      "stdouttrace_New L [stdouttrace_WithPrettyPrint] = (x, None)"
      "stdoutmetric_New L = (y, Some e)"
      "SetupOTelSDKStdout L ctx cfg w =
           (Returned (None, Some e),
            w @ [Call_resource_New ctx (service_name_opts cfg),
                 Call_otel_SetTextMapPropagator newPropagator,
                 Call_stdouttrace_New [stdouttrace_WithPrettyPrint],
                 Call_trace_NewTracerProvider
                   [trace_WithBatcher x [trace_WithBatchTimeout time_Second],
                    trace_WithResource res],
                 Call_otel_SetTracerProvider (Some (stdout_tracer_provider x res)),
                 Call_stdoutmetric_New,
                 Call_Shutdown (TracerProvider_Shutdown (stdout_tracer_provider x res)) ctx])"
  | (succeeds) res x y where
      "resource_New L ctx (service_name_opts cfg) = (res, None)"
      "stdouttrace_New L [stdouttrace_WithPrettyPrint] = (x, None)"
      "stdoutmetric_New L = (y, None)"
      "SetupOTelSDKStdout L ctx cfg w =
           (Returned (None, None),
            w @ [Call_resource_New ctx (service_name_opts cfg),
                 Call_otel_SetTextMapPropagator newPropagator,
                 Call_stdouttrace_New [stdouttrace_WithPrettyPrint],
                 Call_trace_NewTracerProvider
                   [trace_WithBatcher x [trace_WithBatchTimeout time_Second],
                    trace_WithResource res],
                 Call_otel_SetTracerProvider (Some (stdout_tracer_provider x res)),
                 Call_stdoutmetric_New,
                 Call_metric_NewMeterProvider
                   [metric_WithReader (PeriodicReader y [metric_WithInterval (3 * time_Second)]),
                    metric_WithResource res],
                 Call_otel_SetMeterProvider (Some (stdout_meter_provider y res)),
                 Call_Shutdown (MeterProvider_Shutdown (stdout_meter_provider y res)) ctx,
                 Call_Shutdown (TracerProvider_Shutdown (stdout_tracer_provider x res)) ctx])"
proof -
  obtain res e0 where r: "resource_New L ctx (service_name_opts cfg) = (res, e0)"
    by (cases "resource_New L ctx (service_name_opts cfg)")
  obtain x e1 where t: "stdouttrace_New L [stdouttrace_WithPrettyPrint] = (x, e1)"
    by (cases "stdouttrace_New L [stdouttrace_WithPrettyPrint]")
  obtain y e2 where m: "stdoutmetric_New L = (y, e2)"
    by (cases "stdoutmetric_New L")
  show thesis
  proof (cases e0)
    case (Some e)
    note r1 = r [unfolded Some]
    from resource_fails [OF r1 stdout_resource_fails [where cfg = cfg, OF r1]]
    show thesis .
  next
    case None
    note r0 = r [unfolded None]
    show thesis
    proof (cases e1)
      case (Some e)
      note t1 = t [unfolded Some]
      from trace_exporter_fails [OF r0 t1 stdout_trace_exporter_fails [where cfg = cfg, OF r0 t1]]
      show thesis .
    next
      case None
      note t0 = t [unfolded None]
      show thesis
      proof (cases e2)
        case (Some e)
        note m1 = m [unfolded Some]
        from metric_exporter_fails
          [OF r0 t0 m1 stdout_metric_exporter_fails [where cfg = cfg, OF r0 t0 m1]]
        show thesis .
      next
        case None
        note m0 = m [unfolded None]
        from succeeds [OF r0 t0 m0 stdout_succeeds [where cfg = cfg, OF r0 t0 m0]]
        show thesis .
      qed
    qed
  qed
qed

text \<open>
  \<open>initConn\<close> makes one call, \<open>grpc.NewClient\<close>, and the gRPC constructors have two
  outcomes each.
\<close>

lemma initConn_result:
  "\<exists>conn err. initConn L w = ((conn, err), w @ [Call_grpc_NewClient ''localhost:4317'' insecure_opts])"
  by (simp add: initConn_def call_defs Let_def split_beta split: option.splits)

lemma initTracerProvider_fails:
  assumes "otlptracegrpc_New L ctx [otlptracegrpc_WithGRPCConn conn] = (x, Some e)"
  shows "initTracerProvider L ctx res conn w =
           ((None, Some (WrapError ''failed to create trace exporter: %w'' e)),
            w @ [Call_otlptracegrpc_New ctx [otlptracegrpc_WithGRPCConn conn]])"
  by (simp add: initTracerProvider_def call_defs fmt_Errorf_def assms)

lemma initTracerProvider_succeeds:
  assumes "otlptracegrpc_New L ctx [otlptracegrpc_WithGRPCConn conn] = (x, None)"
  shows "initTracerProvider L ctx res conn w =
           ((Some (TracerProvider_Shutdown (grpc_tracer_provider x res)), None),
            w @ [Call_otlptracegrpc_New ctx [otlptracegrpc_WithGRPCConn conn],
                 Call_trace_NewTracerProvider
                   [trace_WithSampler AlwaysSample, trace_WithResource res,
                    trace_WithSpanProcessor (BatchSpanProcessor x)],
                 Call_otel_SetTracerProvider (Some (grpc_tracer_provider x res)),
                 Call_otel_SetTextMapPropagator TraceContext])"
  by (simp add: initTracerProvider_def call_defs Let_def assms)

lemma initMeterProvider_fails:
  assumes "otlpmetricgrpc_New L ctx [otlpmetricgrpc_WithGRPCConn conn] = (y, Some e)"
  shows "initMeterProvider L ctx res conn w =
           ((None, Some (WrapError ''failed to create metrics exporter: %w'' e)),
            w @ [Call_otlpmetricgrpc_New ctx [otlpmetricgrpc_WithGRPCConn conn]])"
  by (simp add: initMeterProvider_def call_defs fmt_Errorf_def assms)

lemma initMeterProvider_succeeds:
  assumes "otlpmetricgrpc_New L ctx [otlpmetricgrpc_WithGRPCConn conn] = (y, None)"
  shows "initMeterProvider L ctx res conn w =
           ((Some (MeterProvider_Shutdown (grpc_meter_provider y res)), None),
            w @ [Call_otlpmetricgrpc_New ctx [otlpmetricgrpc_WithGRPCConn conn],
                 Call_metric_NewMeterProvider
                   [metric_WithReader (PeriodicReader y []), metric_WithResource res],
                 Call_otel_SetMeterProvider (Some (grpc_meter_provider y res))])"
  by (simp add: initMeterProvider_def call_defs Let_def assms)

text \<open>
  The five runs of \<open>SetupOTelSDKGrpc\<close> after \<open>initConn\<close>, whose error does not change
  the path. When an exporter fails the function goes on, defers a call of the nil
  function that the failed step returned, and panics when the deferred calls run.
\<close>

lemma grpc_resource_fails:
  assumes "initConn L w = ((conn, cerr), w1)"
    and "resource_New L ctx (service_name_opts cfg) = (res, Some e)"
  shows "SetupOTelSDKGrpc L ctx cfg w =
           (Returned (None, Some e), w1 @ [Call_resource_New ctx (service_name_opts cfg)])"
  by (simp add: SetupOTelSDKGrpc_def SetupOTelSDKGrpc_body_def return_from_def call_defs
      handleErr_def shutdown_def assms)

lemma grpc_both_exporters_fail:
  assumes "initConn L w = ((conn, cerr), w1)"
    and "resource_New L ctx (service_name_opts cfg) = (res, None)"
    and "otlptracegrpc_New L ctx [otlptracegrpc_WithGRPCConn conn] = (x, Some e1)"
    and "otlpmetricgrpc_New L ctx [otlpmetricgrpc_WithGRPCConn conn] = (y, Some e2)"
  shows "SetupOTelSDKGrpc L ctx cfg w =
           (Panicked,
            w1 @ [Call_resource_New ctx (service_name_opts cfg),
                  Call_otel_SetTextMapPropagator newPropagator,
                  Call_otlptracegrpc_New ctx [otlptracegrpc_WithGRPCConn conn],
                  Call_otlpmetricgrpc_New ctx [otlpmetricgrpc_WithGRPCConn conn]])"
  by (simp add: SetupOTelSDKGrpc_def SetupOTelSDKGrpc_body_def return_from_def call_defs
      handleErr_def shutdown_def assms(1,2) initTracerProvider_fails [OF assms(3)]
      initMeterProvider_fails [OF assms(4)] deferred_shutdown_None)

lemma grpc_trace_exporter_fails:
  assumes "initConn L w = ((conn, cerr), w1)"
    and "resource_New L ctx (service_name_opts cfg) = (res, None)"
    and "otlptracegrpc_New L ctx [otlptracegrpc_WithGRPCConn conn] = (x, Some e1)"
    and "otlpmetricgrpc_New L ctx [otlpmetricgrpc_WithGRPCConn conn] = (y, None)"
  shows "SetupOTelSDKGrpc L ctx cfg w =
           (Panicked,
            w1 @ [Call_resource_New ctx (service_name_opts cfg),
                  Call_otel_SetTextMapPropagator newPropagator,
                  Call_otlptracegrpc_New ctx [otlptracegrpc_WithGRPCConn conn],
                  Call_otlpmetricgrpc_New ctx [otlpmetricgrpc_WithGRPCConn conn],
                  Call_metric_NewMeterProvider
                    [metric_WithReader (PeriodicReader y []), metric_WithResource res],
                  Call_otel_SetMeterProvider (Some (grpc_meter_provider y res)),
                  Call_Shutdown (MeterProvider_Shutdown (grpc_meter_provider y res)) ctx])"
  by (simp add: SetupOTelSDKGrpc_def SetupOTelSDKGrpc_body_def return_from_def call_defs
      handleErr_def shutdown_def assms(1,2) initTracerProvider_fails [OF assms(3)]
      initMeterProvider_succeeds [OF assms(4)] deferred_shutdown_None deferred_shutdown_Some)

lemma grpc_metric_exporter_fails:
  assumes "initConn L w = ((conn, cerr), w1)"
    and "resource_New L ctx (service_name_opts cfg) = (res, None)"
    and "otlptracegrpc_New L ctx [otlptracegrpc_WithGRPCConn conn] = (x, None)"
    and "otlpmetricgrpc_New L ctx [otlpmetricgrpc_WithGRPCConn conn] = (y, Some e2)"
  shows "SetupOTelSDKGrpc L ctx cfg w =
           (Panicked,
            w1 @ [Call_resource_New ctx (service_name_opts cfg),
                  Call_otel_SetTextMapPropagator newPropagator,
                  Call_otlptracegrpc_New ctx [otlptracegrpc_WithGRPCConn conn],
                  Call_trace_NewTracerProvider
                    [trace_WithSampler AlwaysSample, trace_WithResource res,
                     trace_WithSpanProcessor (BatchSpanProcessor x)],
                  Call_otel_SetTracerProvider (Some (grpc_tracer_provider x res)),
                  Call_otel_SetTextMapPropagator TraceContext,
                  Call_otlpmetricgrpc_New ctx [otlpmetricgrpc_WithGRPCConn conn],
                  Call_Shutdown (TracerProvider_Shutdown (grpc_tracer_provider x res)) ctx])"
  by (simp add: SetupOTelSDKGrpc_def SetupOTelSDKGrpc_body_def return_from_def call_defs
      handleErr_def shutdown_def assms(1,2) initTracerProvider_succeeds [OF assms(3)]
      initMeterProvider_fails [OF assms(4)] deferred_shutdown_None deferred_shutdown_Some)

lemma grpc_succeeds:
  assumes "initConn L w = ((conn, cerr), w1)"
    and "resource_New L ctx (service_name_opts cfg) = (res, None)"
    and "otlptracegrpc_New L ctx [otlptracegrpc_WithGRPCConn conn] = (x, None)"
    and "otlpmetricgrpc_New L ctx [otlpmetricgrpc_WithGRPCConn conn] = (y, None)"
  shows "SetupOTelSDKGrpc L ctx cfg w =
           (Returned (None, None),
            w1 @ [Call_resource_New ctx (service_name_opts cfg),
                  Call_otel_SetTextMapPropagator newPropagator,
                  Call_otlptracegrpc_New ctx [otlptracegrpc_WithGRPCConn conn],
                  Call_trace_NewTracerProvider
                    [trace_WithSampler AlwaysSample, trace_WithResource res,
                     trace_WithSpanProcessor (BatchSpanProcessor x)],
                  Call_otel_SetTracerProvider (Some (grpc_tracer_provider x res)),
                  Call_otel_SetTextMapPropagator TraceContext,
                  Call_otlpmetricgrpc_New ctx [otlpmetricgrpc_WithGRPCConn conn],
                  Call_metric_NewMeterProvider
                    [metric_WithReader (PeriodicReader y []), metric_WithResource res],
                  Call_otel_SetMeterProvider (Some (grpc_meter_provider y res)),
                  Call_Shutdown (MeterProvider_Shutdown (grpc_meter_provider y res)) ctx,
                  Call_Shutdown (TracerProvider_Shutdown (grpc_tracer_provider x res)) ctx])"
  by (simp add: SetupOTelSDKGrpc_def SetupOTelSDKGrpc_body_def return_from_def call_defs
      handleErr_def shutdown_def assms(1,2) initTracerProvider_succeeds [OF assms(3)]
      initMeterProvider_succeeds [OF assms(4)] deferred_shutdown_Some)

text \<open>Every run of \<open>SetupOTelSDKGrpc\<close> is one of the five.\<close>

lemma SetupOTelSDKGrpc_cases:
  obtains
    (resource_fails) conn cerr res e where
      "initConn L w =
         ((conn, cerr), w @ [Call_grpc_NewClient ''localhost:4317'' insecure_opts])"
      "resource_New L ctx (service_name_opts cfg) = (res, Some e)"
      "SetupOTelSDKGrpc L ctx cfg w =
           (Returned (None, Some e), w @ [Call_grpc_NewClient ''localhost:4317'' insecure_opts,
                  Call_resource_New ctx (service_name_opts cfg)])"
  | (both_exporters_fail) conn cerr res x y e1 e2 where
      "initConn L w =
         ((conn, cerr), w @ [Call_grpc_NewClient ''localhost:4317'' insecure_opts])"
      "resource_New L ctx (service_name_opts cfg) = (res, None)"
      "otlptracegrpc_New L ctx [otlptracegrpc_WithGRPCConn conn] = (x, Some e1)"
      "otlpmetricgrpc_New L ctx [otlpmetricgrpc_WithGRPCConn conn] = (y, Some e2)"
      "SetupOTelSDKGrpc L ctx cfg w =
           (Panicked,
            w @ [Call_grpc_NewClient ''localhost:4317'' insecure_opts,
                  Call_resource_New ctx (service_name_opts cfg),
                  Call_otel_SetTextMapPropagator newPropagator,
                  Call_otlptracegrpc_New ctx [otlptracegrpc_WithGRPCConn conn],
                  Call_otlpmetricgrpc_New ctx [otlpmetricgrpc_WithGRPCConn conn]])"
  | (trace_exporter_fails) conn cerr res x y e1 where
      "initConn L w =
         ((conn, cerr), w @ [Call_grpc_NewClient ''localhost:4317'' insecure_opts])"
      "resource_New L ctx (service_name_opts cfg) = (res, None)"
      "otlptracegrpc_New L ctx [otlptracegrpc_WithGRPCConn conn] = (x, Some e1)"
      "otlpmetricgrpc_New L ctx [otlpmetricgrpc_WithGRPCConn conn] = (y, None)"
      "SetupOTelSDKGrpc L ctx cfg w =
           (Panicked,
            w @ [Call_grpc_NewClient ''localhost:4317'' insecure_opts,
                  Call_resource_New ctx (service_name_opts cfg),
                  Call_otel_SetTextMapPropagator newPropagator,
                  Call_otlptracegrpc_New ctx [otlptracegrpc_WithGRPCConn conn],
                  Call_otlpmetricgrpc_New ctx [otlpmetricgrpc_WithGRPCConn conn],
                  Call_metric_NewMeterProvider
                    [metric_WithReader (PeriodicReader y []), metric_WithResource res],
                  Call_otel_SetMeterProvider (Some (grpc_meter_provider y res)),
                  Call_Shutdown (MeterProvider_Shutdown (grpc_meter_provider y res)) ctx])"
  | (metric_exporter_fails) conn cerr res x y e2 where
      "initConn L w =
         ((conn, cerr), w @ [Call_grpc_NewClient ''localhost:4317'' insecure_opts])"
      "resource_New L ctx (service_name_opts cfg) = (res, None)"
      "otlptracegrpc_New L ctx [otlptracegrpc_WithGRPCConn conn] = (x, None)"
      "otlpmetricgrpc_New L ctx [otlpmetricgrpc_WithGRPCConn conn] = (y, Some e2)"
      "SetupOTelSDKGrpc L ctx cfg w =
           (Panicked,
            w @ [Call_grpc_NewClient ''localhost:4317'' insecure_opts,
                  Call_resource_New ctx (service_name_opts cfg),
                  Call_otel_SetTextMapPropagator newPropagator,
                  Call_otlptracegrpc_New ctx [otlptracegrpc_WithGRPCConn conn],
                  Call_trace_NewTracerProvider
                    [trace_WithSampler AlwaysSample, trace_WithResource res,
                     trace_WithSpanProcessor (BatchSpanProcessor x)],
                  Call_otel_SetTracerProvider (Some (grpc_tracer_provider x res)),
                  Call_otel_SetTextMapPropagator TraceContext,
                  Call_otlpmetricgrpc_New ctx [otlpmetricgrpc_WithGRPCConn conn],
                  Call_Shutdown (TracerProvider_Shutdown (grpc_tracer_provider x res)) ctx])"
  | (succeeds) conn cerr res x y where
      "initConn L w =
         ((conn, cerr), w @ [Call_grpc_NewClient ''localhost:4317'' insecure_opts])"
      "resource_New L ctx (service_name_opts cfg) = (res, None)"
      "otlptracegrpc_New L ctx [otlptracegrpc_WithGRPCConn conn] = (x, None)"
      "otlpmetricgrpc_New L ctx [otlpmetricgrpc_WithGRPCConn conn] = (y, None)"
      "SetupOTelSDKGrpc L ctx cfg w =
           (Returned (None, None),
            w @ [Call_grpc_NewClient ''localhost:4317'' insecure_opts,
                  Call_resource_New ctx (service_name_opts cfg),
                  Call_otel_SetTextMapPropagator newPropagator,
                  Call_otlptracegrpc_New ctx [otlptracegrpc_WithGRPCConn conn],
                  Call_trace_NewTracerProvider
                    [trace_WithSampler AlwaysSample, trace_WithResource res,
                     trace_WithSpanProcessor (BatchSpanProcessor x)],
                  Call_otel_SetTracerProvider (Some (grpc_tracer_provider x res)),
                  Call_otel_SetTextMapPropagator TraceContext,
                  Call_otlpmetricgrpc_New ctx [otlpmetricgrpc_WithGRPCConn conn],
                  Call_metric_NewMeterProvider
                    [metric_WithReader (PeriodicReader y []), metric_WithResource res],
                  Call_otel_SetMeterProvider (Some (grpc_meter_provider y res)),
                  Call_Shutdown (MeterProvider_Shutdown (grpc_meter_provider y res)) ctx,
                  Call_Shutdown (TracerProvider_Shutdown (grpc_tracer_provider x res)) ctx])"
proof -
  obtain conn cerr where
    c: "initConn L w =
          ((conn, cerr), w @ [Call_grpc_NewClient ''localhost:4317'' insecure_opts])"
    using initConn_result by blast
  obtain res e0 where r: "resource_New L ctx (service_name_opts cfg) = (res, e0)"
    by (cases "resource_New L ctx (service_name_opts cfg)")
  obtain x e1 where t: "otlptracegrpc_New L ctx [otlptracegrpc_WithGRPCConn conn] = (x, e1)"
    by (cases "otlptracegrpc_New L ctx [otlptracegrpc_WithGRPCConn conn]")
  obtain y e2 where m: "otlpmetricgrpc_New L ctx [otlpmetricgrpc_WithGRPCConn conn] = (y, e2)"
    by (cases "otlpmetricgrpc_New L ctx [otlpmetricgrpc_WithGRPCConn conn]")
  show thesis
  proof (cases e0)
    case (Some e)
    note r1 = r [unfolded Some]
    have "SetupOTelSDKGrpc L ctx cfg w =
           (Returned (None, Some e), w @ [Call_grpc_NewClient ''localhost:4317'' insecure_opts,
                  Call_resource_New ctx (service_name_opts cfg)])"
      using grpc_resource_fails [where cfg = cfg, OF c r1] by simp
    from resource_fails [OF c r1 this] show thesis .
  next
    case None
    note r0 = r [unfolded None]
    show thesis
    proof (cases e1)
      case e1: (Some a)
      note t1 = t [unfolded e1]
      show thesis
      proof (cases e2)
        case (Some b)
        note m1 = m [unfolded Some]
        have "SetupOTelSDKGrpc L ctx cfg w =
           (Panicked,
            w @ [Call_grpc_NewClient ''localhost:4317'' insecure_opts,
                  Call_resource_New ctx (service_name_opts cfg),
                  Call_otel_SetTextMapPropagator newPropagator,
                  Call_otlptracegrpc_New ctx [otlptracegrpc_WithGRPCConn conn],
                  Call_otlpmetricgrpc_New ctx [otlpmetricgrpc_WithGRPCConn conn]])"
          using grpc_both_exporters_fail [where cfg = cfg, OF c r0 t1 m1] by simp
        from both_exporters_fail [OF c r0 t1 m1 this] show thesis .
      next
        case None
        note m0 = m [unfolded None]
        have "SetupOTelSDKGrpc L ctx cfg w =
           (Panicked,
            w @ [Call_grpc_NewClient ''localhost:4317'' insecure_opts,
                  Call_resource_New ctx (service_name_opts cfg),
                  Call_otel_SetTextMapPropagator newPropagator,
                  Call_otlptracegrpc_New ctx [otlptracegrpc_WithGRPCConn conn],
                  Call_otlpmetricgrpc_New ctx [otlpmetricgrpc_WithGRPCConn conn],
                  Call_metric_NewMeterProvider
                    [metric_WithReader (PeriodicReader y []), metric_WithResource res],
                  Call_otel_SetMeterProvider (Some (grpc_meter_provider y res)),
                  Call_Shutdown (MeterProvider_Shutdown (grpc_meter_provider y res)) ctx])"
          using grpc_trace_exporter_fails [where cfg = cfg, OF c r0 t1 m0] by simp
        from trace_exporter_fails [OF c r0 t1 m0 this] show thesis .
      qed
    next
      case e1: None
      note t0 = t [unfolded e1]
      show thesis
      proof (cases e2)
        case (Some b)
        note m1 = m [unfolded Some]
        have "SetupOTelSDKGrpc L ctx cfg w =
           (Panicked,
            w @ [Call_grpc_NewClient ''localhost:4317'' insecure_opts,
                  Call_resource_New ctx (service_name_opts cfg),
                  Call_otel_SetTextMapPropagator newPropagator,
                  Call_otlptracegrpc_New ctx [otlptracegrpc_WithGRPCConn conn],
                  Call_trace_NewTracerProvider
                    [trace_WithSampler AlwaysSample, trace_WithResource res,
                     trace_WithSpanProcessor (BatchSpanProcessor x)],
                  Call_otel_SetTracerProvider (Some (grpc_tracer_provider x res)),
                  Call_otel_SetTextMapPropagator TraceContext,
                  Call_otlpmetricgrpc_New ctx [otlpmetricgrpc_WithGRPCConn conn],
                  Call_Shutdown (TracerProvider_Shutdown (grpc_tracer_provider x res)) ctx])"
          using grpc_metric_exporter_fails [where cfg = cfg, OF c r0 t0 m1] by simp
        from metric_exporter_fails [OF c r0 t0 m1 this] show thesis .
      next
        case None
        note m0 = m [unfolded None]
        have "SetupOTelSDKGrpc L ctx cfg w =
           (Returned (None, None),
            w @ [Call_grpc_NewClient ''localhost:4317'' insecure_opts,
                  Call_resource_New ctx (service_name_opts cfg),
                  Call_otel_SetTextMapPropagator newPropagator,
                  Call_otlptracegrpc_New ctx [otlptracegrpc_WithGRPCConn conn],
                  Call_trace_NewTracerProvider
                    [trace_WithSampler AlwaysSample, trace_WithResource res,
                     trace_WithSpanProcessor (BatchSpanProcessor x)],
                  Call_otel_SetTracerProvider (Some (grpc_tracer_provider x res)),
                  Call_otel_SetTextMapPropagator TraceContext,
                  Call_otlpmetricgrpc_New ctx [otlpmetricgrpc_WithGRPCConn conn],
                  Call_metric_NewMeterProvider
                    [metric_WithReader (PeriodicReader y []), metric_WithResource res],
                  Call_otel_SetMeterProvider (Some (grpc_meter_provider y res)),
                  Call_Shutdown (MeterProvider_Shutdown (grpc_meter_provider y res)) ctx,
                  Call_Shutdown (TracerProvider_Shutdown (grpc_tracer_provider x res)) ctx])"
          using grpc_succeeds [where cfg = cfg, OF c r0 t0 m0] by simp
        from succeeds [OF c r0 t0 m0 this] show thesis .
      qed
    qed
  qed
qed

text \<open>The definitions to unfold when a run is evaluated on a concrete library.\<close>

lemmas run_defs = SetupOTelSDKStdout_def SetupOTelSDKStdout_body_def SetupOTelSDKGrpc_def
  SetupOTelSDKGrpc_body_def return_from_def newTraceProvider_def newMeterProvider_def
  initConn_def initTracerProvider_def initMeterProvider_def handleErr_def shutdown_def
  deferred_shutdown_Some deferred_shutdown_None fmt_Errorf_def newPropagator_def call_defs
  Let_def

lemmas lib_defs = all_succeed_def trace_exporter_fails_def metric_exporter_fails_def
  shutdowns_fail_def demo_config_def

section \<open>Properties\<close>

text \<open>
  C1: a setup that returns without error should hand back a shutdown function that is not
  nil and that closes the providers without error. In the run below every library call
  succeeds, and both setup functions return a nil error together with a nil shutdown
  value: the stdout path has by then already shut both providers down through its
  deferred calls, and calling the returned value panics.
\<close>

theorem setup_success_returns_nil_shutdown:
  "fst (SetupOTelSDKStdout all_succeed (Context 0) demo_config []) = Returned (None, None) \<and>
   fst (SetupOTelSDKGrpc all_succeed (Context 0) demo_config []) = Returned (None, None) \<and>
   filter is_Shutdown (snd (SetupOTelSDKStdout all_succeed (Context 0) demo_config [])) =
     [Call_Shutdown
        (MeterProvider_Shutdown
           (stdout_meter_provider (Some (MetricExporter 1)) (Some (Resource 1))))
        (Context 0),
      Call_Shutdown
        (TracerProvider_Shutdown
           (stdout_tracer_provider (Some (SpanExporter 1)) (Some (Resource 1))))
        (Context 0)] \<and>
   fst (call_func all_succeed None (Context 0)
          (snd (SetupOTelSDKStdout all_succeed (Context 0) demo_config []))) = Panicked"
  by (simp add: run_defs lib_defs)

text \<open>
  C2: an error of a construction step should stop the setup and come back as \<open>err\<close>. In
  the run below \<open>otlptracegrpc.New\<close> fails inside \<open>SetupOTelSDKGrpc\<close>; the function goes
  on to build the metric exporter and the meter provider, registers the meter provider,
  and panics in the deferred call of the nil tracer shutdown, so no error is returned.
\<close>

theorem grpc_goes_on_after_trace_exporter_error:
  "SetupOTelSDKGrpc trace_exporter_fails (Context 0) demo_config [] =
     (Panicked,
      [Call_grpc_NewClient ''localhost:4317''
         [grpc_WithTransportCredentials insecure_NewCredentials],
       Call_resource_New (Context 0)
         [resource_WithAttributes [attribute_String ''SERVICE_NAME'' ''checkout'']],
       Call_otel_SetTextMapPropagator (CompositeTextMapPropagator [TraceContext, Baggage]),
       Call_otlptracegrpc_New (Context 0) [otlptracegrpc_WithGRPCConn (Some (ClientConn 1))],
       Call_otlpmetricgrpc_New (Context 0) [otlpmetricgrpc_WithGRPCConn (Some (ClientConn 1))],
       Call_metric_NewMeterProvider
         [metric_WithReader (PeriodicReader (Some (MetricExporter 2)) []),
          metric_WithResource (Some (Resource 1))],
       Call_otel_SetMeterProvider
         (Some (grpc_meter_provider (Some (MetricExporter 2)) (Some (Resource 1)))),
       Call_Shutdown
         (MeterProvider_Shutdown
            (grpc_meter_provider (Some (MetricExporter 2)) (Some (Resource 1))))
         (Context 0)])"
  by (simp add: run_defs lib_defs)

text \<open>
  C3: a setup in which a construction step fails should complete without panicking. In
  the run below \<open>otlpmetricgrpc.New\<close> fails inside \<open>SetupOTelSDKGrpc\<close>: the function value
  returned by \<open>initMeterProvider\<close> is nil, its deferred call panics, the tracer provider
  is shut down while the panic unwinds, and the setup panics.
\<close>

theorem grpc_panics_after_metric_exporter_error:
  "fst (fst (initMeterProvider metric_exporter_fails (Context 0) (Some (Resource 1))
               (Some (ClientConn 1)) [])) = None \<and>
   SetupOTelSDKGrpc metric_exporter_fails (Context 0) demo_config [] =
     (Panicked,
      [Call_grpc_NewClient ''localhost:4317''
         [grpc_WithTransportCredentials insecure_NewCredentials],
       Call_resource_New (Context 0)
         [resource_WithAttributes [attribute_String ''SERVICE_NAME'' ''checkout'']],
       Call_otel_SetTextMapPropagator (CompositeTextMapPropagator [TraceContext, Baggage]),
       Call_otlptracegrpc_New (Context 0) [otlptracegrpc_WithGRPCConn (Some (ClientConn 1))],
       Call_trace_NewTracerProvider
         [trace_WithSampler AlwaysSample, trace_WithResource (Some (Resource 1)),
          trace_WithSpanProcessor (BatchSpanProcessor (Some (SpanExporter 2)))],
       Call_otel_SetTracerProvider
         (Some (grpc_tracer_provider (Some (SpanExporter 2)) (Some (Resource 1)))),
       Call_otel_SetTextMapPropagator TraceContext,
       Call_otlpmetricgrpc_New (Context 0) [otlpmetricgrpc_WithGRPCConn (Some (ClientConn 1))],
       Call_Shutdown
         (TracerProvider_Shutdown
            (grpc_tracer_provider (Some (SpanExporter 2)) (Some (Resource 1))))
         (Context 0)])"
  by (simp add: run_defs lib_defs)

text \<open>
  C4: the list of cleanup callbacks of \<open>shutdown\<close> is empty when the loop starts, so for
  every context the helper calls nothing (the log of calls is unchanged) and returns nil.
\<close>

theorem shutdown_returns_nil: "shutdown L ctx w = (Returned None, w)"
  by (simp add: shutdown_def)

text \<open>
  C10: \<open>handleErr\<close> has no effect that its caller can see: for every error, nil or not,
  and every context it returns nothing and leaves the log of calls as it was.
\<close>

theorem handleErr_no_effect: "handleErr L err ctx w = (Returned (), w)"
  by (simp add: handleErr_def shutdown_def)



text \<open>
  C6: when several shutdown calls fail, their errors should be joined while the remaining
  callbacks are still called. In the run below both providers fail to shut down. Both are
  called, but each error only reaches \<open>handleErr\<close>, which drops it: the setup returns a nil
  error, and the helper \<open>shutdown\<close>, called afterwards, has no callback and returns nil.
\<close>

theorem shutdown_errors_are_dropped:
  "meter_Shutdown shutdowns_fail
     (stdout_meter_provider (Some (MetricExporter 1)) (Some (Resource 1))) (Context 0) =
     Some (ErrorString ''meter: context canceled'') \<and>
   tracer_Shutdown shutdowns_fail
     (stdout_tracer_provider (Some (SpanExporter 1)) (Some (Resource 1))) (Context 0) =
     Some (ErrorString ''tracer: context canceled'') \<and>
   filter is_Shutdown (snd (SetupOTelSDKStdout shutdowns_fail (Context 0) demo_config [])) =
     [Call_Shutdown
        (MeterProvider_Shutdown
           (stdout_meter_provider (Some (MetricExporter 1)) (Some (Resource 1))))
        (Context 0),
      Call_Shutdown
        (TracerProvider_Shutdown
           (stdout_tracer_provider (Some (SpanExporter 1)) (Some (Resource 1))))
        (Context 0)] \<and>
   fst (SetupOTelSDKStdout shutdowns_fail (Context 0) demo_config []) = Returned (None, None) \<and>
   fst (shutdown shutdowns_fail (Context 0)
          (snd (SetupOTelSDKStdout shutdowns_fail (Context 0) demo_config []))) = Returned None"
  by (simp add: run_defs lib_defs)

text \<open>
  C7: every run of \<open>SetupOTelSDKGrpc\<close>, whatever the library answers, calls
  \<open>grpc.NewClient\<close> exactly once, with the target \<open>localhost:4317\<close> and the insecure
  transport credentials as its only option. The connection that \<open>initConn\<close> returns is
  the library's answer to that call (nil, with the wrapped error, when the call fails). It
  is this connection that both exporters are constructed on in every run that gets past
  \<open>resource.New\<close>, and the answers of the exporter constructors for this connection
  decide whether the setup returns without error.
\<close>

theorem grpc_connects_to_local_collector:
  "filter is_grpc_NewClient (emitted w (SetupOTelSDKGrpc L ctx cfg w)) =
     [Call_grpc_NewClient ''localhost:4317''
        [grpc_WithTransportCredentials insecure_NewCredentials]] \<and>
   fst (initConn L w) =
     (case grpc_NewClient L ''localhost:4317''
             [grpc_WithTransportCredentials insecure_NewCredentials] of
        (conn, None) \<Rightarrow> (conn, None)
      | (conn, Some e) \<Rightarrow>
          (None, Some (WrapError ''failed to create gRPC connection to collector: %w'' e))) \<and>
   filter is_exporter_New (emitted w (SetupOTelSDKGrpc L ctx cfg w)) =
     (if snd (resource_New L ctx [resource_WithAttributes [attribute_String ''SERVICE_NAME'' (cfg ''APP_NAME'')]]) = None
      then [Call_otlptracegrpc_New ctx [otlptracegrpc_WithGRPCConn (fst (fst (initConn L w)))],
            Call_otlpmetricgrpc_New ctx [otlpmetricgrpc_WithGRPCConn (fst (fst (initConn L w)))]]
      else []) \<and>
   (fst (SetupOTelSDKGrpc L ctx cfg w) = Returned (None, None)) =
     (snd (resource_New L ctx [resource_WithAttributes [attribute_String ''SERVICE_NAME'' (cfg ''APP_NAME'')]]) = None \<and>
      snd (otlptracegrpc_New L ctx [otlptracegrpc_WithGRPCConn (fst (fst (initConn L w)))]) = None \<and>
      snd (otlpmetricgrpc_New L ctx [otlpmetricgrpc_WithGRPCConn (fst (fst (initConn L w)))]) = None)"
proof (intro conjI)
  show "filter is_grpc_NewClient (emitted w (SetupOTelSDKGrpc L ctx cfg w)) =
          [Call_grpc_NewClient ''localhost:4317''
             [grpc_WithTransportCredentials insecure_NewCredentials]]"
    by (rule SetupOTelSDKGrpc_cases [where L = L and ctx = ctx and cfg = cfg and w = w]) (simp_all add: emitted_def)
  show "fst (initConn L w) =
          (case grpc_NewClient L ''localhost:4317''
                  [grpc_WithTransportCredentials insecure_NewCredentials] of
             (conn, None) \<Rightarrow> (conn, None)
           | (conn, Some e) \<Rightarrow>
               (None, Some (WrapError ''failed to create gRPC connection to collector: %w'' e)))"
    by (simp add: initConn_def call_grpc_NewClient_def fmt_Errorf_def
        split: prod.splits option.splits)
  show "filter is_exporter_New (emitted w (SetupOTelSDKGrpc L ctx cfg w)) =
          (if snd (resource_New L ctx [resource_WithAttributes [attribute_String ''SERVICE_NAME'' (cfg ''APP_NAME'')]]) = None
           then [Call_otlptracegrpc_New ctx
                   [otlptracegrpc_WithGRPCConn (fst (fst (initConn L w)))],
                 Call_otlpmetricgrpc_New ctx
                   [otlpmetricgrpc_WithGRPCConn (fst (fst (initConn L w)))]]
           else [])"
    by (rule SetupOTelSDKGrpc_cases [where L = L and ctx = ctx and cfg = cfg and w = w]) (simp_all add: emitted_def)
  show "(fst (SetupOTelSDKGrpc L ctx cfg w) = Returned (None, None)) =
          (snd (resource_New L ctx [resource_WithAttributes [attribute_String ''SERVICE_NAME'' (cfg ''APP_NAME'')]]) = None \<and>
           snd (otlptracegrpc_New L ctx
                  [otlptracegrpc_WithGRPCConn (fst (fst (initConn L w)))]) = None \<and>
           snd (otlpmetricgrpc_New L ctx
                  [otlpmetricgrpc_WithGRPCConn (fst (fst (initConn L w)))]) = None)"
    by (rule SetupOTelSDKGrpc_cases [where L = L and ctx = ctx and cfg = cfg and w = w]) simp_all
qed

text \<open>
  C8: every run of either setup function, for every configuration, calls \<open>resource.New\<close>
  exactly once, with one attribute: the string pair of the key \<open>SERVICE_NAME\<close> and the
  value that the configuration gives for \<open>APP_NAME\<close>. The resource that the library
  answers to this call is the one that every provider constructed in the run is given.
  When the library answers this call with an error, both setup functions stop after the
  call and return that error; otherwise both go on to set the propagator.
\<close>

theorem resource_has_service_name_attribute:
  "filter is_resource_New (emitted w (SetupOTelSDKStdout L ctx cfg w)) =
     [Call_resource_New ctx [resource_WithAttributes [attribute_String ''SERVICE_NAME'' (cfg ''APP_NAME'')]]] \<and>
   filter is_resource_New (emitted w (SetupOTelSDKGrpc L ctx cfg w)) =
     [Call_resource_New ctx [resource_WithAttributes [attribute_String ''SERVICE_NAME'' (cfg ''APP_NAME'')]]] \<and>
   concat (map provider_resources (emitted w (SetupOTelSDKStdout L ctx cfg w))) =
     replicate (length (filter is_provider_New (emitted w (SetupOTelSDKStdout L ctx cfg w))))
       (fst (resource_New L ctx [resource_WithAttributes [attribute_String ''SERVICE_NAME'' (cfg ''APP_NAME'')]])) \<and>
   concat (map provider_resources (emitted w (SetupOTelSDKGrpc L ctx cfg w))) =
     replicate (length (filter is_provider_New (emitted w (SetupOTelSDKGrpc L ctx cfg w))))
       (fst (resource_New L ctx [resource_WithAttributes [attribute_String ''SERVICE_NAME'' (cfg ''APP_NAME'')]])) \<and>
   (case snd (resource_New L ctx [resource_WithAttributes [attribute_String ''SERVICE_NAME'' (cfg ''APP_NAME'')]]) of
      Some e \<Rightarrow>
        SetupOTelSDKStdout L ctx cfg w =
          (Returned (None, Some e), w @ [Call_resource_New ctx [resource_WithAttributes [attribute_String ''SERVICE_NAME'' (cfg ''APP_NAME'')]]]) \<and>
        SetupOTelSDKGrpc L ctx cfg w =
          (Returned (None, Some e),
           w @ [Call_grpc_NewClient ''localhost:4317''
                  [grpc_WithTransportCredentials insecure_NewCredentials],
                Call_resource_New ctx [resource_WithAttributes [attribute_String ''SERVICE_NAME'' (cfg ''APP_NAME'')]]])
    | None \<Rightarrow>
        Call_otel_SetTextMapPropagator newPropagator
          \<in> set (emitted w (SetupOTelSDKStdout L ctx cfg w)) \<and>
        Call_otel_SetTextMapPropagator newPropagator
          \<in> set (emitted w (SetupOTelSDKGrpc L ctx cfg w)))"
proof (intro conjI)
  show "filter is_resource_New (emitted w (SetupOTelSDKStdout L ctx cfg w)) =
          [Call_resource_New ctx [resource_WithAttributes [attribute_String ''SERVICE_NAME'' (cfg ''APP_NAME'')]]]"
    by (rule SetupOTelSDKStdout_cases [where L = L and ctx = ctx and cfg = cfg and w = w]) (simp_all add: emitted_def)
  show "filter is_resource_New (emitted w (SetupOTelSDKGrpc L ctx cfg w)) =
          [Call_resource_New ctx [resource_WithAttributes [attribute_String ''SERVICE_NAME'' (cfg ''APP_NAME'')]]]"
    by (rule SetupOTelSDKGrpc_cases [where L = L and ctx = ctx and cfg = cfg and w = w]) (simp_all add: emitted_def)
  show "concat (map provider_resources (emitted w (SetupOTelSDKStdout L ctx cfg w))) =
          replicate
            (length (filter is_provider_New (emitted w (SetupOTelSDKStdout L ctx cfg w))))
            (fst (resource_New L ctx [resource_WithAttributes [attribute_String ''SERVICE_NAME'' (cfg ''APP_NAME'')]]))"
    by (rule SetupOTelSDKStdout_cases [where L = L and ctx = ctx and cfg = cfg and w = w]) (simp_all add: emitted_def)
  show "concat (map provider_resources (emitted w (SetupOTelSDKGrpc L ctx cfg w))) =
          replicate
            (length (filter is_provider_New (emitted w (SetupOTelSDKGrpc L ctx cfg w))))
            (fst (resource_New L ctx [resource_WithAttributes [attribute_String ''SERVICE_NAME'' (cfg ''APP_NAME'')]]))"
    by (rule SetupOTelSDKGrpc_cases [where L = L and ctx = ctx and cfg = cfg and w = w]) (simp_all add: emitted_def)
  have stdout: "case snd (resource_New L ctx [resource_WithAttributes [attribute_String ''SERVICE_NAME'' (cfg ''APP_NAME'')]]) of
      Some e \<Rightarrow>
        SetupOTelSDKStdout L ctx cfg w =
          (Returned (None, Some e), w @ [Call_resource_New ctx [resource_WithAttributes [attribute_String ''SERVICE_NAME'' (cfg ''APP_NAME'')]]])
    | None \<Rightarrow>
        Call_otel_SetTextMapPropagator newPropagator
          \<in> set (emitted w (SetupOTelSDKStdout L ctx cfg w))"
    by (rule SetupOTelSDKStdout_cases [where L = L and ctx = ctx and cfg = cfg and w = w]) (simp_all add: emitted_def)
  have grpc: "case snd (resource_New L ctx [resource_WithAttributes [attribute_String ''SERVICE_NAME'' (cfg ''APP_NAME'')]]) of
      Some e \<Rightarrow>
        SetupOTelSDKGrpc L ctx cfg w =
          (Returned (None, Some e),
           w @ [Call_grpc_NewClient ''localhost:4317''
                  [grpc_WithTransportCredentials insecure_NewCredentials],
                Call_resource_New ctx [resource_WithAttributes [attribute_String ''SERVICE_NAME'' (cfg ''APP_NAME'')]]])
    | None \<Rightarrow>
        Call_otel_SetTextMapPropagator newPropagator
          \<in> set (emitted w (SetupOTelSDKGrpc L ctx cfg w))"
    by (rule SetupOTelSDKGrpc_cases [where L = L and ctx = ctx and cfg = cfg and w = w]) (simp_all add: emitted_def)
  from stdout grpc
  show "case snd (resource_New L ctx [resource_WithAttributes [attribute_String ''SERVICE_NAME'' (cfg ''APP_NAME'')]]) of
      Some e \<Rightarrow>
        SetupOTelSDKStdout L ctx cfg w =
          (Returned (None, Some e), w @ [Call_resource_New ctx [resource_WithAttributes [attribute_String ''SERVICE_NAME'' (cfg ''APP_NAME'')]]]) \<and>
        SetupOTelSDKGrpc L ctx cfg w =
          (Returned (None, Some e),
           w @ [Call_grpc_NewClient ''localhost:4317''
                  [grpc_WithTransportCredentials insecure_NewCredentials],
                Call_resource_New ctx [resource_WithAttributes [attribute_String ''SERVICE_NAME'' (cfg ''APP_NAME'')]]])
    | None \<Rightarrow>
        Call_otel_SetTextMapPropagator newPropagator
          \<in> set (emitted w (SetupOTelSDKStdout L ctx cfg w)) \<and>
        Call_otel_SetTextMapPropagator newPropagator
          \<in> set (emitted w (SetupOTelSDKGrpc L ctx cfg w))"
    by (simp split: option.splits)
qed

text \<open>
  C9: for every library, context, configuration and log, \<open>SetupOTelSDKStdout\<close> returns a
  nil shutdown value, and \<open>SetupOTelSDKGrpc\<close> either panics or returns a nil shutdown
  value; calling a nil function value panics.
\<close>

theorem returned_shutdown_is_nil:
  "(\<exists>err. fst (SetupOTelSDKStdout L ctx cfg w) = Returned (None, err)) \<and>
   (fst (SetupOTelSDKGrpc L ctx cfg w) = Panicked \<or>
    (\<exists>err. fst (SetupOTelSDKGrpc L ctx cfg w) = Returned (None, err))) \<and>
   call_func L None ctx w = (Panicked, w)"
proof (intro conjI)
  show "\<exists>err. fst (SetupOTelSDKStdout L ctx cfg w) = Returned (None, err)"
    by (rule SetupOTelSDKStdout_cases [where L = L and ctx = ctx and cfg = cfg and w = w]) simp_all
  show "fst (SetupOTelSDKGrpc L ctx cfg w) = Panicked \<or>
        (\<exists>err. fst (SetupOTelSDKGrpc L ctx cfg w) = Returned (None, err))"
    by (rule SetupOTelSDKGrpc_cases [where L = L and ctx = ctx and cfg = cfg and w = w]) simp_all
  show "call_func L None ctx w = (Panicked, w)"
    by simp
qed

end
